theory Spec2Isabelle
  imports Main "HOL-Library.Sublist"
begin

section \<open>JavaScript values as the tool handlers see them\<close>

text \<open>
  The request's \<open>arguments\<close> reach the handlers as an untyped value (\<open>args: any\<close>).
  Numbers are IEEE doubles in the source; the embedding leaves the number type \<open>'n\<close>
  open and takes the arithmetic and the rendering of a number from the runtime record
  below, so that every statement holds for the machine's own operations.
\<close>

datatype 'n jsval =
    JUndefined
  | JNull
  | JBool bool
  | JNum 'n
  | JStr string
  | JArr "'n jsval list"
  | JObj "(string \<times> 'n jsval) list"

text \<open>The \<open>typeof\<close> operator.\<close>

fun typeof :: "'n jsval \<Rightarrow> string" where
  "typeof JUndefined = ''undefined''"
| "typeof JNull = ''object''"
| "typeof (JBool b) = ''boolean''"
| "typeof (JNum n) = ''number''"
| "typeof (JStr s) = ''string''"
| "typeof (JArr xs) = ''object''"
| "typeof (JObj kvs) = ''object''"

text \<open>
  Property access \<open>args.k\<close>: the stored value of an own property, \<open>undefined\<close> otherwise.
  None of the names the handlers read (\<open>text\<close>, \<open>a\<close>, \<open>b\<close>, \<open>operation\<close>, \<open>path\<close>,
  \<open>content\<close>, \<open>city\<close>, \<open>units\<close>) is a property of a built-in prototype, so a lookup that
  misses, or one on a primitive or an array, yields \<open>undefined\<close>.
\<close>

fun get_prop :: "'n jsval \<Rightarrow> string \<Rightarrow> 'n jsval" where
  "get_prop (JObj kvs) k = (case map_of kvs k of Some v \<Rightarrow> v | None \<Rightarrow> JUndefined)"
| "get_prop v k = JUndefined"

text \<open>
  Truthiness (\<open>!args\<close>, \<open>a || b\<close>). Which numbers are falsy (\<open>0\<close>, \<open>-0\<close>, \<open>NaN\<close>) is
  the runtime's business.
\<close>

fun truthy :: "('n \<Rightarrow> bool) \<Rightarrow> 'n jsval \<Rightarrow> bool" where
  "truthy nt JUndefined = False"
| "truthy nt JNull = False"
| "truthy nt (JBool b) = b"
| "truthy nt (JNum n) = nt n"
| "truthy nt (JStr s) = (s \<noteq> [])"
| "truthy nt (JArr xs) = True"
| "truthy nt (JObj kvs) = True"

section \<open>Errors and results\<close>

text \<open>The members of the SDK's \<open>ErrorCode\<close> that the server uses.\<close>

datatype ErrorCode = InvalidParams | MethodNotFound | InternalError

text \<open>
  What a \<open>throw\<close> can carry. \<open>McpError code message\<close> is the typed failure, built from
  the two constructor arguments. A fault is anything else: an \<open>Error\<close> with its
  \<open>message\<close>, or a thrown value that is not an \<open>Error\<close>, kept as its \<open>String(...)\<close>.
\<close>

datatype fault = Error string | NonError string

datatype exn = McpError ErrorCode string | Fault fault

text \<open>\<open>error instanceof Error ? error.message : String(error)\<close>\<close>

fun errorMessage :: "fault \<Rightarrow> string" where
  "errorMessage (Error m) = m"
| "errorMessage (NonError s) = s"

record content_block =
  block_type :: string
  block_text :: string

record tool_result =
  content :: "content_block list"

text \<open>The return value \<open>{ content: [ { type: "text", text: t } ] }\<close>.\<close>

definition text_result :: "string \<Rightarrow> tool_result" where
  "text_result t = \<lparr>content = [\<lparr>block_type = ''text'', block_text = t\<rparr>]\<rparr>"

section \<open>The runtime the handlers run on\<close>

text \<open>
  Everything the handlers take from Node rather than from the repository: number
  arithmetic and the rendering of a number in a template literal, the clock, and the
  four calls on \<open>fs/promises\<close>. The state \<open>'s\<close> is the world outside the process; each
  call returns the world it leaves behind next to its result or the fault it throws.
\<close>

record 'n Stats =
  isDirectory :: bool
  size_bytes :: 'n

record ('n, 's) runtime =
  num_add :: "'n \<Rightarrow> 'n \<Rightarrow> 'n"
  num_mul :: "'n \<Rightarrow> 'n \<Rightarrow> 'n"
  num_show :: "'n \<Rightarrow> string"
  num_truthy :: "'n \<Rightarrow> bool"
  date_now_iso :: "'s \<Rightarrow> string"
  readFile :: "'s \<Rightarrow> string \<Rightarrow> (fault + string) \<times> 's"
  writeFile :: "'s \<Rightarrow> string \<Rightarrow> string \<Rightarrow> (fault + unit) \<times> 's"
  stat :: "'s \<Rightarrow> string \<Rightarrow> (fault + 'n Stats) \<times> 's"
  readdir :: "'s \<Rightarrow> string \<Rightarrow> (fault + string list) \<times> 's"

definition newline :: string where
  "newline = [CHR 0x0A]"

text \<open>\<open>files.join('\n')\<close>\<close>

fun join :: "string \<Rightarrow> string list \<Rightarrow> string" where
  "join sep [] = []"
| "join sep [x] = x"
| "join sep (x # y # ys) = x @ sep @ join sep (y # ys)"

section \<open>src/index.ts: the catalog answered to a list-tools request\<close>

record property =
  prop_name :: string
  prop_type :: string
  prop_enum :: "string list option"
  prop_description :: string

record inputSchema =
  schema_type :: string
  properties :: "property list"
  required :: "string list"

record tool =
  tool_name :: string
  tool_description :: string
  tool_inputSchema :: inputSchema

text \<open>
  The \<open>tools\<close> array of the list-tools handler, in its order. The schema of \<open>get_time\<close>
  has no \<open>required\<close> entry: it requires nothing.
\<close>

definition listTools :: "tool list" where
  "listTools =
    [\<lparr>tool_name = ''echo'', tool_description = ''Echo back the input text'',
      tool_inputSchema = \<lparr>schema_type = ''object'',
        properties = [\<lparr>prop_name = ''text'', prop_type = ''string'', prop_enum = None,
                       prop_description = ''Text to echo back''\<rparr>],
        required = [''text'']\<rparr>\<rparr>,
     \<lparr>tool_name = ''add_numbers'', tool_description = ''Add two numbers together'',
      tool_inputSchema = \<lparr>schema_type = ''object'',
        properties = [\<lparr>prop_name = ''a'', prop_type = ''number'', prop_enum = None,
                       prop_description = ''First number''\<rparr>,
                      \<lparr>prop_name = ''b'', prop_type = ''number'', prop_enum = None,
                       prop_description = ''Second number''\<rparr>],
        required = [''a'', ''b'']\<rparr>\<rparr>,
     \<lparr>tool_name = ''multiply_numbers'', tool_description = ''Multiply two numbers'',
      tool_inputSchema = \<lparr>schema_type = ''object'',
        properties = [\<lparr>prop_name = ''a'', prop_type = ''number'', prop_enum = None,
                       prop_description = ''First number''\<rparr>,
                      \<lparr>prop_name = ''b'', prop_type = ''number'', prop_enum = None,
                       prop_description = ''Second number''\<rparr>],
        required = [''a'', ''b'']\<rparr>\<rparr>,
     \<lparr>tool_name = ''get_time'', tool_description = ''Get the current time'',
      tool_inputSchema = \<lparr>schema_type = ''object'', properties = [], required = []\<rparr>\<rparr>,
     \<lparr>tool_name = ''file_operations'',
      tool_description = ''Perform basic file operations (read, write, list)'',
      tool_inputSchema = \<lparr>schema_type = ''object'',
        properties = [\<lparr>prop_name = ''operation'', prop_type = ''string'',
                       prop_enum = Some [''read'', ''write'', ''list''],
                       prop_description = ''Type of file operation''\<rparr>,
                      \<lparr>prop_name = ''path'', prop_type = ''string'', prop_enum = None,
                       prop_description = ''File or directory path''\<rparr>,
                      \<lparr>prop_name = ''content'', prop_type = ''string'', prop_enum = None,
                       prop_description = ''Content to write (for write operation)''\<rparr>],
        required = [''operation'', ''path'']\<rparr>\<rparr>]"

text \<open>The names a client can call, and the primitive kind a schema declares for a field.\<close>

definition registered :: "string list" where
  "registered = map tool_name listTools"

definition declared_type :: "tool \<Rightarrow> string \<Rightarrow> string option" where
  "declared_type t f =
     map_of (map (\<lambda>p. (prop_name p, prop_type p)) (properties (tool_inputSchema t))) f"

section \<open>src/index.ts: the dispatcher and the file handler\<close>

text \<open>
  The \<open>catch\<close> block shared by the dispatcher and \<open>handleFileOperations\<close>: a typed
  failure is thrown again as it is, anything else becomes an \<open>InternalError\<close> whose
  message is the given prefix followed by the fault's message.
\<close>

fun rethrow_or_wrap :: "string \<Rightarrow> exn \<Rightarrow> exn" where
  "rethrow_or_wrap pre (McpError c m) = McpError c m"
| "rethrow_or_wrap pre (Fault f) = McpError InternalError (pre @ errorMessage f)"

definition try_catch :: "string \<Rightarrow> (exn + 'a) \<times> 's \<Rightarrow> (exn + 'a) \<times> 's" where
  "try_catch pre r =
     (case r of (Inl e, s) \<Rightarrow> (Inl (rethrow_or_wrap pre e), s) | (Inr v, s) \<Rightarrow> (Inr v, s))"

text \<open>
  A guard \<open>typeof v !== 'string'\<close> followed by uses of \<open>v\<close> as a string is written as a
  case distinction on \<open>v\<close>: the branch \<open>JStr x\<close> is the one where \<open>typeof v\<close> is
  \<open>'string'\<close> (lemma \<open>typeof_string\<close> below), every other value takes the guard's
  \<open>throw\<close>; likewise for numbers. The two dynamic imports of Node's own modules at the
  head of \<open>handleFileOperations\<close> always resolve and are left out.
\<close>

text \<open>The \<open>switch (args.operation)\<close> inside the \<open>try\<close> of \<open>handleFileOperations\<close>.\<close>

definition file_switch ::
  "('n, 's) runtime \<Rightarrow> 's \<Rightarrow> string \<Rightarrow> string \<Rightarrow> 'n jsval \<Rightarrow> (exn + tool_result) \<times> 's" where
  "file_switch rt s operation path args =
     (if operation = ''read'' then
        (case readFile rt s path of
           (Inl f, s1) \<Rightarrow> (Inl (Fault f), s1)
         | (Inr text, s1) \<Rightarrow>
             (Inr (text_result (''File content of '' @ path @ '':'' @ newline @ text)), s1))
      else if operation = ''write'' then
        (case get_prop args ''content'' of
           JStr data \<Rightarrow>
             (case writeFile rt s path data of
                (Inl f, s1) \<Rightarrow> (Inl (Fault f), s1)
              | (Inr u, s1) \<Rightarrow> (Inr (text_result (''Successfully wrote to '' @ path)), s1))
         | _ \<Rightarrow>
             (Inl (McpError InvalidParams ''Content parameter is required for write operation''), s))
      else if operation = ''list'' then
        (case stat rt s path of
           (Inl f, s1) \<Rightarrow> (Inl (Fault f), s1)
         | (Inr stats, s1) \<Rightarrow>
             if isDirectory stats then
               (case readdir rt s1 path of
                  (Inl f, s2) \<Rightarrow> (Inl (Fault f), s2)
                | (Inr files, s2) \<Rightarrow>
                    (Inr (text_result (''Directory contents of '' @ path @ '':'' @ newline
                                       @ join newline files)), s2))
             else
               (Inr (text_result (path @ '' is a file (size: ''
                                  @ num_show rt (size_bytes stats) @ '' bytes)'')), s1))
      else (Inl (McpError InvalidParams (''Unknown file operation: '' @ operation)), s))"

definition handleFileOperations ::
  "('n, 's) runtime \<Rightarrow> 's \<Rightarrow> 'n jsval \<Rightarrow> (exn + tool_result) \<times> 's" where
  "handleFileOperations rt s args =
     (if \<not> truthy (num_truthy rt) args then
        (Inl (McpError InvalidParams ''Both 'operation' and 'path' parameters are required''), s)
      else
        (case (get_prop args ''operation'', get_prop args ''path'') of
           (JStr operation, JStr path) \<Rightarrow>
             try_catch ''File operation failed: '' (file_switch rt s operation path args)
         | _ \<Rightarrow>
             (Inl (McpError InvalidParams
                     ''Both 'operation' and 'path' parameters are required''), s)))"

text \<open>The \<open>switch (name)\<close> inside the \<open>try\<close> of the call-tool handler.\<close>

definition tool_switch ::
  "('n, 's) runtime \<Rightarrow> 's \<Rightarrow> string \<Rightarrow> 'n jsval \<Rightarrow> (exn + tool_result) \<times> 's" where
  "tool_switch rt s name args =
     (if name = ''echo'' then
        (case get_prop args ''text'' of
           JStr t \<Rightarrow> (Inr (text_result (''Echo: '' @ t)), s)
         | _ \<Rightarrow> (Inl (McpError InvalidParams ''Text parameter is required''), s))
      else if name = ''add_numbers'' then
        (case (get_prop args ''a'', get_prop args ''b'') of
           (JNum a, JNum b) \<Rightarrow>
             (Inr (text_result (num_show rt a @ '' + '' @ num_show rt b @ '' = ''
                                @ num_show rt (num_add rt a b))), s)
         | _ \<Rightarrow>
             (Inl (McpError InvalidParams ''Both 'a' and 'b' parameters must be numbers''), s))
      else if name = ''multiply_numbers'' then
        (case (get_prop args ''a'', get_prop args ''b'') of
           (JNum a, JNum b) \<Rightarrow>
             (Inr (text_result (num_show rt a @ '' * '' @ num_show rt b @ '' = ''
                                @ num_show rt (num_mul rt a b))), s)
         | _ \<Rightarrow>
             (Inl (McpError InvalidParams ''Both 'a' and 'b' parameters must be numbers''), s))
      else if name = ''get_time'' then
        (Inr (text_result (''Current time: '' @ date_now_iso rt s)), s)
      else if name = ''file_operations'' then handleFileOperations rt s args
      else (Inl (McpError MethodNotFound (''Unknown tool: '' @ name)), s))"

text \<open>The handler registered for \<open>CallToolRequestSchema\<close>.\<close>

definition callTool ::
  "('n, 's) runtime \<Rightarrow> 's \<Rightarrow> string \<Rightarrow> 'n jsval \<Rightarrow> (exn + tool_result) \<times> 's" where
  "callTool rt s name args =
     (if \<not> truthy (num_truthy rt) args then
        (Inl (McpError InvalidParams ''Arguments are required''), s)
      else try_catch ''Tool execution failed: '' (tool_switch rt s name args))"

section \<open>build/mcp_server.js: the weather handler and its dispatcher\<close>

text \<open>
  The file holds two programs: an older compiled build of the server (lines 1 to 131),
  which has none of the guards of src/index.ts and is not embedded here, and the source
  of an extended server (from line 133 on), embedded in this section.
  The extended server adds three tools that talk to the network. What they
  take from outside the repository: the process environment, and the outbound exchange
  of each handler, that is the statements of its \<open>try\<close> block that call \<open>fetch\<close> and
  format the reply (lines 171 to 215, 249 to 274 and 294 to 315), given here as one
  function each from the handler's inputs to the text it returns or the fault it throws.
\<close>

record ('n, 's) network =
  env_OPENWEATHER_API_KEY :: "'s \<Rightarrow> string option"
  http_exchange :: "'s \<Rightarrow> 'n jsval \<Rightarrow> (fault + string) \<times> 's"
  weather_exchange :: "'s \<Rightarrow> string \<Rightarrow> string \<Rightarrow> 'n jsval \<Rightarrow> (fault + string) \<times> 's"
  placeholder_exchange :: "'s \<Rightarrow> 'n jsval \<Rightarrow> (fault + string) \<times> 's"

text \<open>
  The \<open>catch\<close> block of the three network handlers: whatever the \<open>try\<close> threw becomes
  an \<open>InternalError\<close>.
\<close>

definition wrap_fault :: "string \<Rightarrow> (fault + string) \<times> 's \<Rightarrow> (exn + tool_result) \<times> 's" where
  "wrap_fault pre r =
     (case r of
        (Inl f, s) \<Rightarrow> (Inl (McpError InternalError (pre @ errorMessage f)), s)
      | (Inr t, s) \<Rightarrow> (Inr (text_result t), s))"

definition weather_setup_text :: string where
  "weather_setup_text =
     ''Weather API requires OPENWEATHER_API_KEY environment variable. ''
     @ ''You can get a free API key from https://openweathermap.org/api''
     @ newline @ newline @ ''Example usage:'' @ newline
     @ ''OPENWEATHER_API_KEY=your_key_here npm start''"

definition handleWeatherAPI ::
  "('n, 's) runtime \<Rightarrow> ('n, 's) network \<Rightarrow> 's \<Rightarrow> 'n jsval \<Rightarrow> (exn + tool_result) \<times> 's" where
  "handleWeatherAPI rt net s args =
     (if \<not> truthy (num_truthy rt) args then
        (Inl (McpError InvalidParams ''City parameter is required''), s)
      else
        (case get_prop args ''city'' of
           JStr city \<Rightarrow>
             (let units = (if truthy (num_truthy rt) (get_prop args ''units'')
                           then get_prop args ''units'' else JStr ''metric'');
                  apiKey = env_OPENWEATHER_API_KEY net s
              in case apiKey of
                   None \<Rightarrow> (Inr (text_result weather_setup_text), s)
                 | Some key \<Rightarrow>
                     if key = [] then (Inr (text_result weather_setup_text), s)
                     else wrap_fault ''Weather API request failed: ''
                            (weather_exchange net s city key units))
         | _ \<Rightarrow> (Inl (McpError InvalidParams ''City parameter is required''), s)))"

definition handleHttpRequest ::
  "('n, 's) runtime \<Rightarrow> ('n, 's) network \<Rightarrow> 's \<Rightarrow> 'n jsval \<Rightarrow> (exn + tool_result) \<times> 's" where
  "handleHttpRequest rt net s args =
     (if \<not> truthy (num_truthy rt) args then
        (Inl (McpError InvalidParams ''URL parameter is required''), s)
      else
        (case get_prop args ''url'' of
           JStr url \<Rightarrow> wrap_fault ''HTTP request failed: '' (http_exchange net s args)
         | _ \<Rightarrow> (Inl (McpError InvalidParams ''URL parameter is required''), s)))"

definition handleJsonPlaceholder ::
  "('n, 's) runtime \<Rightarrow> ('n, 's) network \<Rightarrow> 's \<Rightarrow> 'n jsval \<Rightarrow> (exn + tool_result) \<times> 's" where
  "handleJsonPlaceholder rt net s args =
     (if \<not> truthy (num_truthy rt) args then
        (Inl (McpError InvalidParams ''Endpoint parameter is required''), s)
      else
        (case get_prop args ''endpoint'' of
           JStr endpoint \<Rightarrow>
             wrap_fault ''JSONPlaceholder API request failed: '' (placeholder_exchange net s args)
         | _ \<Rightarrow> (Inl (McpError InvalidParams ''Endpoint parameter is required''), s)))"

text \<open>
  The \<open>switch (name)\<close> of this program's call-tool handler: no \<open>multiply_numbers\<close>,
  three more cases. Its \<open>handleFileOperations\<close> is the one of src/index.ts, line for line.
\<close>

definition tool_switch_mcp_server ::
  "('n, 's) runtime \<Rightarrow> ('n, 's) network \<Rightarrow> 's \<Rightarrow> string \<Rightarrow> 'n jsval
     \<Rightarrow> (exn + tool_result) \<times> 's" where
  "tool_switch_mcp_server rt net s name args =
     (if name = ''echo'' then
        (case get_prop args ''text'' of
           JStr t \<Rightarrow> (Inr (text_result (''Echo: '' @ t)), s)
         | _ \<Rightarrow> (Inl (McpError InvalidParams ''Text parameter is required''), s))
      else if name = ''add_numbers'' then
        (case (get_prop args ''a'', get_prop args ''b'') of
           (JNum a, JNum b) \<Rightarrow>
             (Inr (text_result (num_show rt a @ '' + '' @ num_show rt b @ '' = ''
                                @ num_show rt (num_add rt a b))), s)
         | _ \<Rightarrow>
             (Inl (McpError InvalidParams ''Both 'a' and 'b' parameters must be numbers''), s))
      else if name = ''get_time'' then
        (Inr (text_result (''Current time: '' @ date_now_iso rt s)), s)
      else if name = ''file_operations'' then handleFileOperations rt s args
      else if name = ''http_request'' then handleHttpRequest rt net s args
      else if name = ''weather_api'' then handleWeatherAPI rt net s args
      else if name = ''json_placeholder'' then handleJsonPlaceholder rt net s args
      else (Inl (McpError MethodNotFound (''Unknown tool: '' @ name)), s))"

definition callTool_mcp_server ::
  "('n, 's) runtime \<Rightarrow> ('n, 's) network \<Rightarrow> 's \<Rightarrow> string \<Rightarrow> 'n jsval
     \<Rightarrow> (exn + tool_result) \<times> 's" where
  "callTool_mcp_server rt net s name args =
     (if \<not> truthy (num_truthy rt) args then
        (Inl (McpError InvalidParams ''Arguments are required''), s)
      else try_catch ''Tool execution failed: '' (tool_switch_mcp_server rt net s name args))"

section \<open>A runtime to run the handlers on\<close>

text \<open>
  A small instance of the runtime, for running the handlers on concrete requests: the
  numbers are the integers (a double's sum and product of integers are the integer ones
  while they stay below \<open>2^53\<close> in magnitude, and such a double prints as its decimal
  numeral), the filesystem is a table from paths to files and directories held in
  memory, and the network is unreachable.
\<close>

fun digits :: "nat \<Rightarrow> string" where
  "digits n =
     (if n < 10 then [''0123456789'' ! n]
      else digits (n div 10) @ [''0123456789'' ! (n mod 10)])"

declare digits.simps [simp del]

definition int_show :: "int \<Rightarrow> string" where
  "int_show i = (if i < 0 then ''-'' @ digits (nat (- i)) else digits (nat i))"

datatype node = File string | Dir "string list"

record world =
  files :: "(string \<times> node) list"
  clock :: string
  api_key :: "string option"

definition enoent :: "string \<Rightarrow> string \<Rightarrow> fault" where
  "enoent syscall p = Error (''ENOENT: no such file or directory, '' @ syscall @ '' ''
                             @ [CHR 0x27] @ p @ [CHR 0x27])"

definition mem_readFile :: "world \<Rightarrow> string \<Rightarrow> (fault + string) \<times> world" where
  "mem_readFile w p =
     (case map_of (files w) p of
        None \<Rightarrow> (Inl (enoent ''open'' p), w)
      | Some (Dir es) \<Rightarrow> (Inl (Error ''EISDIR: illegal operation on a directory, read''), w)
      | Some (File c) \<Rightarrow> (Inr c, w))"

definition mem_writeFile :: "world \<Rightarrow> string \<Rightarrow> string \<Rightarrow> (fault + unit) \<times> world" where
  "mem_writeFile w p c =
     (case map_of (files w) p of
        Some (Dir es) \<Rightarrow>
          (Inl (Error (''EISDIR: illegal operation on a directory, open ''
                       @ [CHR 0x27] @ p @ [CHR 0x27])), w)
      | _ \<Rightarrow> (Inr (), w\<lparr>files := (p, File c) # files w\<rparr>))"

definition mem_stat :: "world \<Rightarrow> string \<Rightarrow> (fault + int Stats) \<times> world" where
  "mem_stat w p =
     (case map_of (files w) p of
        None \<Rightarrow> (Inl (enoent ''stat'' p), w)
      | Some (Dir es) \<Rightarrow> (Inr \<lparr>isDirectory = True, size_bytes = 4096\<rparr>, w)
      | Some (File c) \<Rightarrow> (Inr \<lparr>isDirectory = False, size_bytes = int (length c)\<rparr>, w))"

definition mem_readdir :: "world \<Rightarrow> string \<Rightarrow> (fault + string list) \<times> world" where
  "mem_readdir w p =
     (case map_of (files w) p of
        None \<Rightarrow> (Inl (enoent ''scandir'' p), w)
      | Some (Dir es) \<Rightarrow> (Inr es, w)
      | Some (File c) \<Rightarrow>
          (Inl (Error (''ENOTDIR: not a directory, scandir '' @ [CHR 0x27] @ p @ [CHR 0x27])), w))"

definition mem_runtime :: "(int, world) runtime" where
  "mem_runtime =
     \<lparr>num_add = (+), num_mul = (*), num_show = int_show, num_truthy = (\<lambda>i. i \<noteq> 0),
      date_now_iso = clock,
      readFile = mem_readFile, writeFile = mem_writeFile,
      stat = mem_stat, readdir = mem_readdir\<rparr>"

definition offline :: "(int, world) network" where
  "offline =
     \<lparr>env_OPENWEATHER_API_KEY = api_key,
      http_exchange = (\<lambda>w args. (Inl (Error ''fetch failed''), w)),
      weather_exchange = (\<lambda>w city key units. (Inl (Error ''fetch failed''), w)),
      placeholder_exchange = (\<lambda>w args. (Inl (Error ''fetch failed''), w))\<rparr>"

definition world0 :: world where
  "world0 =
     \<lparr>files = [(''/tmp'', Dir [''notes.txt'', ''empty'']),
               (''/tmp/notes.txt'', File ''hello''),
               (''/tmp/empty'', File [])],
      clock = ''2024-01-01T00:00:00.000Z'',
      api_key = None\<rparr>"

section \<open>Reading an error message for a field name\<close>

text \<open>
  A message names a field when the field's name occurs in it, letter case aside: the
  messages of the source write \<open>Text\<close> and \<open>Content\<close> for the fields \<open>text\<close> and
  \<open>content\<close>.
\<close>

definition to_lower :: "char \<Rightarrow> char" where
  "to_lower c =
     (case map_of (zip ''ABCDEFGHIJKLMNOPQRSTUVWXYZ'' ''abcdefghijklmnopqrstuvwxyz'') c of
        Some l \<Rightarrow> l
      | None \<Rightarrow> c)"

definition names_field :: "string \<Rightarrow> string \<Rightarrow> bool" where
  "names_field msg f = sublist (map to_lower f) (map to_lower msg)"

section \<open>Reading a response\<close>

text \<open>The error kind of a response, when it is a typed failure.\<close>

fun failure_code :: "exn + 'a \<Rightarrow> ErrorCode option" where
  "failure_code (Inl (McpError c m)) = Some c"
| "failure_code (Inl (Fault f)) = None"
| "failure_code (Inr v) = None"

section \<open>Sample requests\<close>

text \<open>Requests and worlds the theorems below are run on.\<close>

definition read_missing :: "int jsval" where
  "read_missing = JObj [(''operation'', JStr ''read''), (''path'', JStr ''/tmp/none.txt'')]"

definition write_nothing :: "int jsval" where
  "write_nothing = JObj [(''operation'', JStr ''write''), (''path'', JStr ''/tmp/out.txt'')]"

definition write_hello :: "int jsval" where
  "write_hello = JObj [(''operation'', JStr ''write''), (''path'', JStr ''/tmp/out.txt''),
                       (''content'', JStr ''hello world'')]"

definition read_back :: "int jsval" where
  "read_back = JObj [(''operation'', JStr ''read''), (''path'', JStr ''/tmp/out.txt'')]"

definition world1 :: world where
  "world1 = world0\<lparr>files := (''/tmp/out.txt'', File ''hello world'') # files world0\<rparr>"

definition list_file :: "int jsval" where
  "list_file = JObj [(''operation'', JStr ''list''), (''path'', JStr ''/tmp/notes.txt'')]"

definition sum_request :: "int jsval" where
  "sum_request = JObj [(''note'', JStr ''extra''), (''b'', JNum (- 5)), (''a'', JNum 12)]"

definition list_dir :: "int jsval" where
  "list_dir = JObj [(''operation'', JStr ''list''), (''path'', JStr ''/tmp'')]"

section \<open>Requests without arguments\<close>

text \<open>
  C9. A request that carries no arguments (\<open>arguments\<close> is \<open>undefined\<close>) is answered
  with \<open>InvalidParams\<close>, message "Arguments are required", whatever the tool name is:
  the name is not looked at, so an unregistered name gets this answer too and
  \<open>get_time\<close>, which takes no argument, does as well. The world is left as it was.
\<close>

theorem callTool_without_arguments:
  "callTool rt s name JUndefined = (Inl (McpError InvalidParams ''Arguments are required''), s)"
  by (simp add: callTool_def)

section \<open>Facts about the guards\<close>

lemma registered_names:
  "registered = [''echo'', ''add_numbers'', ''multiply_numbers'', ''get_time'', ''file_operations'']"
  by (simp add: registered_def listTools_def)

lemma typeof_string: "typeof v = ''string'' \<longleftrightarrow> (\<exists>x. v = JStr x)"
  by (cases v) simp_all

lemma typeof_number: "typeof v = ''number'' \<longleftrightarrow> (\<exists>x. v = JNum x)"
  by (cases v) simp_all

lemma echo_rejects:
  assumes "\<forall>x. get_prop args ''text'' \<noteq> JStr x" and "truthy (num_truthy rt) args"
  shows "callTool rt s ''echo'' args = (Inl (McpError InvalidParams ''Text parameter is required''), s)"
  using assms
  by (cases "get_prop args ''text''") (simp_all add: callTool_def tool_switch_def try_catch_def)

lemma add_rejects:
  assumes "(\<forall>x. get_prop args ''a'' \<noteq> JNum x) \<or> (\<forall>x. get_prop args ''b'' \<noteq> JNum x)"
    and "truthy (num_truthy rt) args"
  shows "callTool rt s ''add_numbers'' args
           = (Inl (McpError InvalidParams ''Both 'a' and 'b' parameters must be numbers''), s)"
  using assms
  by (cases "get_prop args ''a''"; cases "get_prop args ''b''")
     (simp_all add: callTool_def tool_switch_def try_catch_def)

lemma multiply_rejects:
  assumes "(\<forall>x. get_prop args ''a'' \<noteq> JNum x) \<or> (\<forall>x. get_prop args ''b'' \<noteq> JNum x)"
    and "truthy (num_truthy rt) args"
  shows "callTool rt s ''multiply_numbers'' args
           = (Inl (McpError InvalidParams ''Both 'a' and 'b' parameters must be numbers''), s)"
  using assms
  by (cases "get_prop args ''a''"; cases "get_prop args ''b''")
     (simp_all add: callTool_def tool_switch_def try_catch_def)

lemma handleFileOperations_rejects:
  assumes "(\<forall>x. get_prop args ''operation'' \<noteq> JStr x) \<or> (\<forall>x. get_prop args ''path'' \<noteq> JStr x)"
  shows "handleFileOperations rt s args
           = (Inl (McpError InvalidParams ''Both 'operation' and 'path' parameters are required''), s)"
  using assms
  by (cases "get_prop args ''operation''"; cases "get_prop args ''path''")
     (simp_all add: handleFileOperations_def)

lemma file_operations_rejects:
  assumes "(\<forall>x. get_prop args ''operation'' \<noteq> JStr x) \<or> (\<forall>x. get_prop args ''path'' \<noteq> JStr x)"
    and "truthy (num_truthy rt) args"
  shows "callTool rt s ''file_operations'' args
           = (Inl (McpError InvalidParams ''Both 'operation' and 'path' parameters are required''), s)"
  using assms(2)
  by (simp add: callTool_def tool_switch_def try_catch_def handleFileOperations_rejects [OF assms(1)])

lemma listTools_cases:
  assumes "t \<in> set listTools"
  obtains "tool_name t = ''echo''" "required (tool_inputSchema t) = [''text'']"
          "declared_type t ''text'' = Some ''string''"
  | "tool_name t = ''add_numbers''" "required (tool_inputSchema t) = [''a'', ''b'']"
    "declared_type t ''a'' = Some ''number''" "declared_type t ''b'' = Some ''number''"
  | "tool_name t = ''multiply_numbers''" "required (tool_inputSchema t) = [''a'', ''b'']"
    "declared_type t ''a'' = Some ''number''" "declared_type t ''b'' = Some ''number''"
  | "tool_name t = ''get_time''" "required (tool_inputSchema t) = []"
  | "tool_name t = ''file_operations''" "required (tool_inputSchema t) = [''operation'', ''path'']"
    "declared_type t ''operation'' = Some ''string''" "declared_type t ''path'' = Some ''string''"
  using assms unfolding listTools_def declared_type_def by auto

lemma not_string: "typeof v \<noteq> ''string'' \<Longrightarrow> \<forall>x. v \<noteq> JStr x"
  by (simp add: typeof_string)

lemma not_number: "typeof v \<noteq> ''number'' \<Longrightarrow> \<forall>x. v \<noteq> JNum x"
  by (simp add: typeof_number)

section \<open>Unknown tool names\<close>

text \<open>
  C2, as the code has it. A request whose tool name is not in the catalog and which
  carries an arguments value that passes the \<open>!args\<close> test (any object does) is answered
  with \<open>MethodNotFound\<close>, message "Unknown tool: " followed by the name. No handler
  runs: the world is returned as it was, on every runtime.
\<close>

theorem unregistered_tool_with_arguments:
  assumes "name \<notin> set registered" and "truthy (num_truthy rt) args"
  shows "callTool rt s name args = (Inl (McpError MethodNotFound (''Unknown tool: '' @ name)), s)"
  using assms by (simp add: registered_names callTool_def tool_switch_def try_catch_def)

theorem unregistered_tool_with_arguments_witness:
  "''no_such_tool'' \<notin> set registered \<and> truthy (num_truthy mem_runtime) (JObj []) \<and>
   callTool mem_runtime world0 ''no_such_tool'' (JObj [])
     = (Inl (McpError MethodNotFound ''Unknown tool: no_such_tool''), world0)"
proof -
  have a: "''no_such_tool'' \<notin> set registered" by (simp add: registered_names)
  have b: "truthy (num_truthy mem_runtime) (JObj [])" by simp
  from unregistered_tool_with_arguments [OF a b, of world0] a b show ?thesis by simp
qed

text \<open>
  C2, as the claim words it, promises \<open>MethodNotFound\<close> whatever accompanies the request.
  A request for an unknown tool that carries no arguments is stopped by the test on
  \<open>args\<close>, which comes before the \<open>switch\<close> on the name: the answer is \<open>InvalidParams\<close>.
\<close>

theorem unregistered_tool_without_arguments_counterexample:
  "''no_such_tool'' \<notin> set registered \<and>
   callTool mem_runtime world0 ''no_such_tool'' JUndefined
     = (Inl (McpError InvalidParams ''Arguments are required''), world0) \<and>
   failure_code (fst (callTool mem_runtime world0 ''no_such_tool'' JUndefined)) \<noteq> Some MethodNotFound"
  by (simp add: registered_names callTool_def)

section \<open>Arguments of the wrong kind\<close>

text \<open>
  C3. Take a tool of the catalog, a field its schema requires, and an arguments object
  that supplies for this field a value whose \<open>typeof\<close> is not the kind the schema
  declares. The answer is an \<open>InvalidParams\<close> failure and the world is untouched, on
  every runtime: neither the runtime's arithmetic nor any of its filesystem calls had a
  part in it. Nothing is converted on the way: a string is not a number, whatever it
  spells (the witness sends \<open>a = "2"\<close> to \<open>add_numbers\<close>).
\<close>

theorem wrong_kind_rejected:
  assumes t: "t \<in> set listTools"
    and f: "f \<in> set (required (tool_inputSchema t))"
    and k: "declared_type t f = Some k"
    and v: "map_of kvs f = Some v"
    and bad: "typeof v \<noteq> k"
  shows "\<exists>msg. callTool rt s (tool_name t) (JObj kvs) = (Inl (McpError InvalidParams msg), s)"
proof -
  have g: "get_prop (JObj kvs) f = v" using v by simp
  have tr: "truthy (num_truthy rt) (JObj kvs)" by simp
  from t show ?thesis
  proof (cases rule: listTools_cases)
    case 1
    with f k bad g have "\<forall>x. get_prop (JObj kvs) ''text'' \<noteq> JStr x"
      by (auto dest: not_string)
    from echo_rejects [OF this tr] 1 show ?thesis by simp
  next
    case 2
    with f k bad g have "(\<forall>x. get_prop (JObj kvs) ''a'' \<noteq> JNum x)
                         \<or> (\<forall>x. get_prop (JObj kvs) ''b'' \<noteq> JNum x)"
      by (auto dest: not_number)
    from add_rejects [OF this tr] 2 show ?thesis by simp
  next
    case 3
    with f k bad g have "(\<forall>x. get_prop (JObj kvs) ''a'' \<noteq> JNum x)
                         \<or> (\<forall>x. get_prop (JObj kvs) ''b'' \<noteq> JNum x)"
      by (auto dest: not_number)
    from multiply_rejects [OF this tr] 3 show ?thesis by simp
  next
    case 4
    with f show ?thesis by simp
  next
    case 5
    with f k bad g have "(\<forall>x. get_prop (JObj kvs) ''operation'' \<noteq> JStr x)
                         \<or> (\<forall>x. get_prop (JObj kvs) ''path'' \<noteq> JStr x)"
      by (auto dest: not_string)
    from file_operations_rejects [OF this tr] 5 show ?thesis by simp
  qed
qed

theorem wrong_kind_rejected_witness:
  "listTools ! 1 \<in> set listTools \<and>
   ''a'' \<in> set (required (tool_inputSchema (listTools ! 1))) \<and>
   declared_type (listTools ! 1) ''a'' = Some ''number'' \<and>
   map_of [(''a'', JStr ''2''), (''b'', JNum (3::int))] ''a'' = Some (JStr ''2'') \<and>
   typeof (JStr ''2'' :: int jsval) \<noteq> ''number'' \<and>
   tool_name (listTools ! 1) = ''add_numbers'' \<and>
   (\<exists>msg. callTool mem_runtime world0 (tool_name (listTools ! 1))
            (JObj [(''a'', JStr ''2''), (''b'', JNum 3)])
          = (Inl (McpError InvalidParams msg), world0))"
proof -
  have t: "listTools ! 1 \<in> set listTools" by (simp add: listTools_def)
  have f: "''a'' \<in> set (required (tool_inputSchema (listTools ! 1)))"
    by (simp add: listTools_def)
  have k: "declared_type (listTools ! 1) ''a'' = Some ''number''"
    by (simp add: listTools_def declared_type_def)
  have v: "map_of [(''a'', JStr ''2''), (''b'', JNum (3::int))] ''a'' = Some (JStr ''2'')"
    by simp
  have bad: "typeof (JStr ''2'' :: int jsval) \<noteq> ''number''" by simp
  have n: "tool_name (listTools ! 1) = ''add_numbers''" by (simp add: listTools_def)
  from wrong_kind_rejected [OF t f k v bad, of mem_runtime world0] t f k v bad n
  show ?thesis by blast
qed

section \<open>Facts about \<open>try\<close> and \<open>catch\<close>\<close>

lemma file_operations_unfold:
  assumes "truthy (num_truthy rt) args"
    and "get_prop args ''operation'' = JStr operation"
    and "get_prop args ''path'' = JStr path"
  shows "callTool rt s ''file_operations'' args =
           try_catch ''Tool execution failed: ''
             (try_catch ''File operation failed: '' (file_switch rt s operation path args))"
  using assms by (simp add: callTool_def tool_switch_def handleFileOperations_def)

lemma try_catch_Inr: "try_catch pre (Inr v, s) = (Inr v, s)"
  by (simp add: try_catch_def)

lemma try_catch_McpError: "try_catch pre (Inl (McpError c m), s) = (Inl (McpError c m), s)"
  by (simp add: try_catch_def)

lemma try_catch_Fault:
  "try_catch pre (Inl (Fault f), s) = (Inl (McpError InternalError (pre @ errorMessage f)), s)"
  by (simp add: try_catch_def)

lemma file_switch_result:
  assumes "file_switch rt s operation path args = (Inr r, s')"
  shows "\<exists>t. r = text_result t"
  using assms unfolding file_switch_def
  by (auto split: if_splits prod.splits sum.splits jsval.splits)

lemma try_catch_result: "try_catch pre x = (Inr r, s') \<longleftrightarrow> x = (Inr r, s')"
  by (cases x; cases "fst x") (auto simp: try_catch_def split: sum.splits)

lemma try_catch_typed:
  assumes "try_catch pre x = (Inl e, s')"
  shows "\<exists>c m. e = McpError c m"
proof -
  obtain y s1 where x: "x = (y, s1)" by (cases x)
  show ?thesis
  proof (cases y)
    case (Inl e0)
    with x assms have "e = rethrow_or_wrap pre e0" by (simp add: try_catch_def)
    then show ?thesis by (cases e0) simp_all
  next
    case (Inr v)
    with x assms show ?thesis by (simp add: try_catch_def)
  qed
qed

lemma handleFileOperations_result:
  assumes "handleFileOperations rt s args = (Inr r, s')"
  shows "\<exists>t. r = text_result t"
proof -
  from assms obtain operation path where
    "try_catch ''File operation failed: '' (file_switch rt s operation path args) = (Inr r, s')"
    unfolding handleFileOperations_def
    by (auto split: if_splits jsval.splits)
  then show ?thesis by (auto simp: try_catch_result dest: file_switch_result)
qed

lemma tool_switch_result:
  assumes "tool_switch rt s name args = (Inr r, s')"
  shows "\<exists>t. r = text_result t"
proof -
  consider "name = ''echo''" | "name = ''add_numbers''" | "name = ''multiply_numbers''"
    | "name = ''get_time''" | "name = ''file_operations''"
    | "name \<notin> set registered"
    by (auto simp: registered_def listTools_def)
  then show ?thesis
  proof cases
    case 1
    with assms show ?thesis
      by (cases "get_prop args ''text''") (auto simp: tool_switch_def)
  next
    case 2
    with assms show ?thesis
      by (cases "get_prop args ''a''"; cases "get_prop args ''b''") (auto simp: tool_switch_def)
  next
    case 3
    with assms show ?thesis
      by (cases "get_prop args ''a''"; cases "get_prop args ''b''") (auto simp: tool_switch_def)
  next
    case 4
    with assms show ?thesis by (auto simp: tool_switch_def)
  next
    case 5
    with assms show ?thesis by (auto simp: tool_switch_def dest: handleFileOperations_result)
  next
    case 6
    with assms show ?thesis by (auto simp: tool_switch_def registered_def listTools_def)
  qed
qed

lemma names_text: "names_field ''Text parameter is required'' ''text''"
  by (simp add: names_field_def to_lower_def sublist_code)

lemma names_ab:
  "names_field ''Both 'a' and 'b' parameters must be numbers'' ''a''"
  "names_field ''Both 'a' and 'b' parameters must be numbers'' ''b''"
  by (simp_all add: names_field_def to_lower_def sublist_code)

lemma names_operation_path:
  "names_field ''Both 'operation' and 'path' parameters are required'' ''operation''"
  "names_field ''Both 'operation' and 'path' parameters are required'' ''path''"
  by (simp_all add: names_field_def to_lower_def sublist_code)

lemma names_content:
  "names_field ''Content parameter is required for write operation'' ''content''"
  by (simp add: names_field_def to_lower_def sublist_code)

lemma write_without_content:
  assumes "truthy (num_truthy rt) args"
    and "get_prop args ''operation'' = JStr ''write''"
    and "get_prop args ''path'' = JStr p"
    and "\<forall>x. get_prop args ''content'' \<noteq> JStr x"
  shows "callTool rt s ''file_operations'' args
           = (Inl (McpError InvalidParams ''Content parameter is required for write operation''), s)"
  using assms
  by (cases "get_prop args ''content''")
     (simp_all add: callTool_def tool_switch_def handleFileOperations_def file_switch_def
                    try_catch_def)

lemma mem_write_read:
  "\<forall>w p c w'. writeFile mem_runtime w p c = (Inr (), w') \<longrightarrow> fst (readFile mem_runtime w' p) = Inr c"
  by (auto simp: mem_runtime_def mem_writeFile_def mem_readFile_def
           split: option.splits node.splits)

section \<open>Faults and typed failures\<close>

text \<open>
  C1. Four facts about what leaves the dispatcher. First, whatever the request, a
  failure that \<open>callTool\<close> returns is a typed \<open>McpError\<close>: no other fault gets out.
  Second, when the body of the file handler throws a fault that is not an \<open>McpError\<close>
  (a filesystem call failed), the client receives an \<open>InternalError\<close> whose message is
  "File operation failed: " followed by the fault's own message. Third and fourth, an
  \<open>McpError\<close> thrown inside the file handler's \<open>try\<close>, or by any case of the dispatcher's
  \<open>switch\<close>, reaches the client with the same code and the same message: neither
  \<open>catch\<close> wraps it again.
\<close>

theorem faults_leave_as_typed_failures:
  "(callTool rt s name args = (Inl e, s') \<longrightarrow> (\<exists>c m. e = McpError c m))
   \<and> (truthy (num_truthy rt) fargs \<and> get_prop fargs ''operation'' = JStr fop
        \<and> get_prop fargs ''path'' = JStr fpath
        \<and> file_switch rt fw fop fpath fargs = (Inl (Fault f), fw')
      \<longrightarrow> callTool rt fw ''file_operations'' fargs
            = (Inl (McpError InternalError (''File operation failed: '' @ errorMessage f)), fw'))
   \<and> (truthy (num_truthy rt) targs \<and> get_prop targs ''operation'' = JStr topn
        \<and> get_prop targs ''path'' = JStr tpath
        \<and> file_switch rt tw topn tpath targs = (Inl (McpError tc tm), tw')
      \<longrightarrow> callTool rt tw ''file_operations'' targs = (Inl (McpError tc tm), tw'))
   \<and> (truthy (num_truthy rt) dargs
        \<and> tool_switch rt dw dname dargs = (Inl (McpError dc dm), dw')
      \<longrightarrow> callTool rt dw dname dargs = (Inl (McpError dc dm), dw'))"
proof (intro conjI impI)
  assume "callTool rt s name args = (Inl e, s')"
  then show "\<exists>c m. e = McpError c m"
    by (auto simp: callTool_def split: if_splits dest: try_catch_typed)
next
  assume h: "truthy (num_truthy rt) fargs \<and> get_prop fargs ''operation'' = JStr fop
        \<and> get_prop fargs ''path'' = JStr fpath
        \<and> file_switch rt fw fop fpath fargs = (Inl (Fault f), fw')"
  then have a: "truthy (num_truthy rt) fargs" "get_prop fargs ''operation'' = JStr fop"
    "get_prop fargs ''path'' = JStr fpath" by simp_all
  from h show "callTool rt fw ''file_operations'' fargs
            = (Inl (McpError InternalError (''File operation failed: '' @ errorMessage f)), fw')"
    by (simp add: file_operations_unfold [OF a] try_catch_Fault try_catch_McpError)
next
  assume h: "truthy (num_truthy rt) targs \<and> get_prop targs ''operation'' = JStr topn
        \<and> get_prop targs ''path'' = JStr tpath
        \<and> file_switch rt tw topn tpath targs = (Inl (McpError tc tm), tw')"
  then have a: "truthy (num_truthy rt) targs" "get_prop targs ''operation'' = JStr topn"
    "get_prop targs ''path'' = JStr tpath" by simp_all
  from h show "callTool rt tw ''file_operations'' targs = (Inl (McpError tc tm), tw')"
    by (simp add: file_operations_unfold [OF a] try_catch_McpError)
next
  assume "truthy (num_truthy rt) dargs
        \<and> tool_switch rt dw dname dargs = (Inl (McpError dc dm), dw')"
  then show "callTool rt dw dname dargs = (Inl (McpError dc dm), dw')"
    by (simp add: callTool_def try_catch_McpError)
qed

theorem faults_leave_as_typed_failures_witness:
  "callTool mem_runtime world0 ''file_operations'' read_missing
     = (Inl (McpError InternalError
          (''File operation failed: '' @ errorMessage (enoent ''open'' ''/tmp/none.txt''))), world0)
   \<and> file_switch mem_runtime world0 ''read'' ''/tmp/none.txt'' read_missing
     = (Inl (Fault (enoent ''open'' ''/tmp/none.txt'')), world0)
   \<and> file_switch mem_runtime world0 ''write'' ''/tmp/out.txt'' write_nothing
     = (Inl (McpError InvalidParams ''Content parameter is required for write operation''), world0)
   \<and> callTool mem_runtime world0 ''file_operations'' write_nothing
     = (Inl (McpError InvalidParams ''Content parameter is required for write operation''), world0)
   \<and> tool_switch mem_runtime world0 ''echo'' (JObj [])
     = (Inl (McpError InvalidParams ''Text parameter is required''), world0)
   \<and> callTool mem_runtime world0 ''echo'' (JObj [])
     = (Inl (McpError InvalidParams ''Text parameter is required''), world0)"
proof -
  have t1: "truthy (num_truthy mem_runtime) read_missing"
    and o1: "get_prop read_missing ''operation'' = JStr ''read''"
    and p1: "get_prop read_missing ''path'' = JStr ''/tmp/none.txt''"
    by (simp_all add: read_missing_def)
  have f1: "file_switch mem_runtime world0 ''read'' ''/tmp/none.txt'' read_missing
              = (Inl (Fault (enoent ''open'' ''/tmp/none.txt'')), world0)"
    by (simp add: file_switch_def mem_runtime_def mem_readFile_def world0_def)
  have t2: "truthy (num_truthy mem_runtime) write_nothing"
    and o2: "get_prop write_nothing ''operation'' = JStr ''write''"
    and p2: "get_prop write_nothing ''path'' = JStr ''/tmp/out.txt''"
    by (simp_all add: write_nothing_def)
  have f2: "file_switch mem_runtime world0 ''write'' ''/tmp/out.txt'' write_nothing
              = (Inl (McpError InvalidParams ''Content parameter is required for write operation''),
                 world0)"
    by (simp add: file_switch_def write_nothing_def)
  have t3: "truthy (num_truthy mem_runtime) (JObj [])" by simp
  have f3: "tool_switch mem_runtime world0 ''echo'' (JObj [])
              = (Inl (McpError InvalidParams ''Text parameter is required''), world0)"
    by (simp add: tool_switch_def)
  note inst = faults_leave_as_typed_failures
    [where rt = mem_runtime and s = world0 and name = "''file_operations''" and args = read_missing
       and e = "McpError InternalError (''File operation failed: '' @ errorMessage (enoent ''open'' ''/tmp/none.txt''))"
       and s' = world0
       and fargs = read_missing and fop = "''read''" and fpath = "''/tmp/none.txt''"
       and fw = world0 and f = "enoent ''open'' ''/tmp/none.txt''" and fw' = world0
       and targs = write_nothing and topn = "''write''" and tpath = "''/tmp/out.txt''"
       and tw = world0 and tc = InvalidParams
       and tm = "''Content parameter is required for write operation''" and tw' = world0
       and dargs = "JObj []" and dw = world0 and dname = "''echo''"
       and dc = InvalidParams and dm = "''Text parameter is required''" and dw' = world0]
  from inst t1 o1 p1 f1 t2 o2 p2 f2 t3 f3 show ?thesis by simp
qed

section \<open>Missing required fields\<close>

text \<open>
  C4. Take a tool of the catalog and a field its schema requires. A request whose
  arguments object has no such field is answered with an \<open>InvalidParams\<close> failure whose
  message names the field, and the world is untouched. The same holds for
  \<open>file_operations\<close> with \<open>operation = "write"\<close>, a path and no \<open>content\<close>: the message
  names \<open>content\<close>.
\<close>

theorem missing_required_field_rejected:
  "(t \<in> set listTools \<and> f \<in> set (required (tool_inputSchema t)) \<and> map_of kvs f = None
      \<longrightarrow> (\<exists>msg. callTool rt s (tool_name t) (JObj kvs) = (Inl (McpError InvalidParams msg), s)
                 \<and> names_field msg f))
   \<and> (map_of kvs' ''operation'' = Some (JStr ''write'') \<and> map_of kvs' ''path'' = Some (JStr p)
        \<and> map_of kvs' ''content'' = None
      \<longrightarrow> (\<exists>msg. callTool rt s ''file_operations'' (JObj kvs')
                   = (Inl (McpError InvalidParams msg), s)
                 \<and> names_field msg ''content''))"
proof (intro conjI impI)
  have tr: "truthy (num_truthy rt) (JObj kvs)" by simp
  assume h: "t \<in> set listTools \<and> f \<in> set (required (tool_inputSchema t)) \<and> map_of kvs f = None"
  then have t: "t \<in> set listTools" and f: "f \<in> set (required (tool_inputSchema t))"
    and m: "map_of kvs f = None" by simp_all
  from t show "\<exists>msg. callTool rt s (tool_name t) (JObj kvs) = (Inl (McpError InvalidParams msg), s)
               \<and> names_field msg f"
  proof (cases rule: listTools_cases)
    case 1
    with f m have "\<forall>x. get_prop (JObj kvs) ''text'' \<noteq> JStr x" by simp
    from echo_rejects [OF this tr] 1 f names_text show ?thesis by simp
  next
    case 2
    with f m have "(\<forall>x. get_prop (JObj kvs) ''a'' \<noteq> JNum x)
                   \<or> (\<forall>x. get_prop (JObj kvs) ''b'' \<noteq> JNum x)" by auto
    from add_rejects [OF this tr] 2 f names_ab show ?thesis by auto
  next
    case 3
    with f m have "(\<forall>x. get_prop (JObj kvs) ''a'' \<noteq> JNum x)
                   \<or> (\<forall>x. get_prop (JObj kvs) ''b'' \<noteq> JNum x)" by auto
    from multiply_rejects [OF this tr] 3 f names_ab show ?thesis by auto
  next
    case 4
    with f show ?thesis by simp
  next
    case 5
    with f m have "(\<forall>x. get_prop (JObj kvs) ''operation'' \<noteq> JStr x)
                   \<or> (\<forall>x. get_prop (JObj kvs) ''path'' \<noteq> JStr x)" by auto
    from file_operations_rejects [OF this tr] 5 f names_operation_path show ?thesis by auto
  qed
next
  have tr: "truthy (num_truthy rt) (JObj kvs')" by simp
  assume h: "map_of kvs' ''operation'' = Some (JStr ''write'') \<and> map_of kvs' ''path'' = Some (JStr p)
      \<and> map_of kvs' ''content'' = None"
  then have "get_prop (JObj kvs') ''operation'' = JStr ''write''"
    and "get_prop (JObj kvs') ''path'' = JStr p"
    and "\<forall>x. get_prop (JObj kvs') ''content'' \<noteq> JStr x" by simp_all
  from write_without_content [OF tr this] names_content
  show "\<exists>msg. callTool rt s ''file_operations'' (JObj kvs')
                 = (Inl (McpError InvalidParams msg), s)
               \<and> names_field msg ''content''" by simp
qed

theorem missing_required_field_rejected_witness:
  "listTools ! 4 \<in> set listTools
   \<and> ''path'' \<in> set (required (tool_inputSchema (listTools ! 4)))
   \<and> tool_name (listTools ! 4) = ''file_operations''
   \<and> map_of [(''operation'', JStr ''read'' :: int jsval)] ''path'' = None
   \<and> (\<exists>msg. callTool mem_runtime world0 (tool_name (listTools ! 4))
              (JObj [(''operation'', JStr ''read'')])
            = (Inl (McpError InvalidParams msg), world0)
          \<and> names_field msg ''path'')
   \<and> map_of [(''operation'', JStr ''write'' :: int jsval), (''path'', JStr ''/tmp/out.txt'')]
        ''content'' = None
   \<and> (\<exists>msg. callTool mem_runtime world0 ''file_operations''
              (JObj [(''operation'', JStr ''write''), (''path'', JStr ''/tmp/out.txt'')])
            = (Inl (McpError InvalidParams msg), world0)
          \<and> names_field msg ''content'')"
proof -
  have t: "listTools ! 4 \<in> set listTools" by (simp add: listTools_def)
  have f: "''path'' \<in> set (required (tool_inputSchema (listTools ! 4)))"
    by (simp add: listTools_def)
  have n: "tool_name (listTools ! 4) = ''file_operations''" by (simp add: listTools_def)
  have m: "map_of [(''operation'', JStr ''read'' :: int jsval)] ''path'' = None" by simp
  have w: "map_of [(''operation'', JStr ''write'' :: int jsval), (''path'', JStr ''/tmp/out.txt'')]
             ''operation'' = Some (JStr ''write'')"
    "map_of [(''operation'', JStr ''write'' :: int jsval), (''path'', JStr ''/tmp/out.txt'')]
             ''path'' = Some (JStr ''/tmp/out.txt'')"
    "map_of [(''operation'', JStr ''write'' :: int jsval), (''path'', JStr ''/tmp/out.txt'')]
             ''content'' = None"
    by simp_all
  note inst = missing_required_field_rejected
    [where t = "listTools ! 4" and f = "''path''"
       and kvs = "[(''operation'', JStr ''read'' :: int jsval)]"
       and kvs' = "[(''operation'', JStr ''write'' :: int jsval), (''path'', JStr ''/tmp/out.txt'')]"
       and p = "''/tmp/out.txt''" and rt = mem_runtime and s = world0]
  from inst t f n m w show ?thesis by blast
qed

section \<open>Writing a file and reading it back\<close>

text \<open>
  C5. On a filesystem where reading a path after a successful \<open>writeFile\<close> to it gives
  back the string that was written, a successful \<open>file_operations\<close> write of \<open>C\<close> to
  \<open>P\<close> followed by a read of \<open>P\<close> succeeds, and the text of the result is
  "File content of P:", a line break, and \<open>C\<close> itself, unchanged. The handler hands
  \<open>P\<close> and \<open>C\<close> to the filesystem as they came and adds nothing after what it reads.
\<close>

theorem write_then_read_round_trip:
  assumes law: "\<forall>w p c w'. writeFile rt w p c = (Inr (), w') \<longrightarrow> fst (readFile rt w' p) = Inr c"
    and wargs: "truthy (num_truthy rt) wargs" "get_prop wargs ''operation'' = JStr ''write''"
      "get_prop wargs ''path'' = JStr P" "get_prop wargs ''content'' = JStr C"
    and rargs: "truthy (num_truthy rt) rargs" "get_prop rargs ''operation'' = JStr ''read''"
      "get_prop rargs ''path'' = JStr P"
    and written: "callTool rt s ''file_operations'' wargs = (Inr r, s')"
  shows "fst (callTool rt s' ''file_operations'' rargs)
           = Inr (text_result (''File content of '' @ P @ '':'' @ newline @ C))"
proof -
  from written have "file_switch rt s ''write'' P wargs = (Inr r, s')"
    by (auto simp: file_operations_unfold [OF wargs(1,2,3)] try_catch_def
             split: prod.splits sum.splits)
  with wargs(4) have "writeFile rt s P C = (Inr (), s')"
    by (auto simp: file_switch_def split: prod.splits sum.splits)
  with law have "fst (readFile rt s' P) = Inr C" by blast
  then obtain s'' where "readFile rt s' P = (Inr C, s'')" by (cases "readFile rt s' P") auto
  then have "file_switch rt s' ''read'' P rargs
               = (Inr (text_result (''File content of '' @ P @ '':'' @ newline @ C)), s'')"
    by (simp add: file_switch_def)
  then show ?thesis
    by (simp add: file_operations_unfold [OF rargs] try_catch_Inr)
qed

theorem write_then_read_round_trip_witness:
  "callTool mem_runtime world0 ''file_operations'' write_hello
     = (Inr (text_result ''Successfully wrote to /tmp/out.txt''), world1)
   \<and> fst (callTool mem_runtime world1 ''file_operations'' read_back)
     = Inr (text_result (''File content of /tmp/out.txt:'' @ newline @ ''hello world''))"
proof -
  have w: "truthy (num_truthy mem_runtime) write_hello"
    "get_prop write_hello ''operation'' = JStr ''write''"
    "get_prop write_hello ''path'' = JStr ''/tmp/out.txt''"
    "get_prop write_hello ''content'' = JStr ''hello world''"
    by (simp_all add: write_hello_def)
  have r: "truthy (num_truthy mem_runtime) read_back"
    "get_prop read_back ''operation'' = JStr ''read''"
    "get_prop read_back ''path'' = JStr ''/tmp/out.txt''"
    by (simp_all add: read_back_def)
  have run: "callTool mem_runtime world0 ''file_operations'' write_hello
               = (Inr (text_result ''Successfully wrote to /tmp/out.txt''), world1)"
  proof -
    have "file_switch mem_runtime world0 ''write'' ''/tmp/out.txt'' write_hello
            = (Inr (text_result ''Successfully wrote to /tmp/out.txt''), world1)"
      by (simp add: file_switch_def w(4) mem_runtime_def mem_writeFile_def world0_def world1_def)
    then show ?thesis by (simp add: file_operations_unfold [OF w(1,2,3)] try_catch_Inr)
  qed
  from write_then_read_round_trip [OF mem_write_read w r run] run show ?thesis by simp
qed

section \<open>Listing a path\<close>

text \<open>
  C6. A \<open>file_operations\<close> list of a path \<open>P\<close> for which \<open>stat\<close> succeeds: when \<open>P\<close> is
  not a directory, the result is a success whose text is "P is a file (size: N bytes)"
  with \<open>N\<close> the size \<open>stat\<close> reported, never a failure; when \<open>P\<close> is a directory and
  \<open>readdir\<close> returns its entries, the result is a success whose text is
  "Directory contents of P:", a line break, and the entry names joined by line breaks.
\<close>

theorem list_reports_file_size_or_entries:
  assumes "truthy (num_truthy rt) args" and "get_prop args ''operation'' = JStr ''list''"
    and "get_prop args ''path'' = JStr P"
    and "stat rt s P = (Inr st, s1)"
  shows "(\<not> isDirectory st \<longrightarrow>
            callTool rt s ''file_operations'' args
              = (Inr (text_result (P @ '' is a file (size: '' @ num_show rt (size_bytes st)
                                   @ '' bytes)'')), s1))
       \<and> (isDirectory st \<and> readdir rt s1 P = (Inr entries, s2) \<longrightarrow>
            callTool rt s ''file_operations'' args
              = (Inr (text_result (''Directory contents of '' @ P @ '':'' @ newline
                                   @ join newline entries)), s2))"
  using assms(4)
  by (simp add: file_operations_unfold [OF assms(1,2,3)] file_switch_def try_catch_Inr)

theorem list_reports_file_size_or_entries_witness:
  "stat mem_runtime world0 ''/tmp/notes.txt'' = (Inr \<lparr>isDirectory = False, size_bytes = 5\<rparr>, world0)
   \<and> callTool mem_runtime world0 ''file_operations'' list_file
     = (Inr (text_result ''/tmp/notes.txt is a file (size: 5 bytes)''), world0)
   \<and> stat mem_runtime world0 ''/tmp'' = (Inr \<lparr>isDirectory = True, size_bytes = 4096\<rparr>, world0)
   \<and> readdir mem_runtime world0 ''/tmp'' = (Inr [''notes.txt'', ''empty''], world0)
   \<and> callTool mem_runtime world0 ''file_operations'' list_dir
     = (Inr (text_result (''Directory contents of /tmp:'' @ newline @ ''notes.txt'' @ newline
                          @ ''empty'')), world0)"
proof -
  have f: "truthy (num_truthy mem_runtime) list_file"
    "get_prop list_file ''operation'' = JStr ''list''"
    "get_prop list_file ''path'' = JStr ''/tmp/notes.txt''"
    by (simp_all add: list_file_def)
  have d: "truthy (num_truthy mem_runtime) list_dir"
    "get_prop list_dir ''operation'' = JStr ''list''"
    "get_prop list_dir ''path'' = JStr ''/tmp''"
    by (simp_all add: list_dir_def)
  have sf: "stat mem_runtime world0 ''/tmp/notes.txt''
              = (Inr \<lparr>isDirectory = False, size_bytes = 5\<rparr>, world0)"
    by (simp add: mem_runtime_def mem_stat_def world0_def)
  have sd: "stat mem_runtime world0 ''/tmp''
              = (Inr \<lparr>isDirectory = True, size_bytes = 4096\<rparr>, world0)"
    by (simp add: mem_runtime_def mem_stat_def world0_def)
  have rd: "readdir mem_runtime world0 ''/tmp'' = (Inr [''notes.txt'', ''empty''], world0)"
    by (simp add: mem_runtime_def mem_readdir_def world0_def)
  have five: "num_show mem_runtime 5 = ''5''"
    by (simp add: mem_runtime_def int_show_def digits.simps)
  from list_reports_file_size_or_entries [OF f sf]
       list_reports_file_size_or_entries [OF d sd, of "[''notes.txt'', ''empty'']" world0]
       sf sd rd five
  show ?thesis by simp
qed

section \<open>The weather tool without a key\<close>

text \<open>
  C7. In build/mcp_server.js, a \<open>weather_api\<close> request with a string \<open>city\<close>, made while
  the environment has no \<open>OPENWEATHER_API_KEY\<close> (or an empty one), is answered with a success: one text
  block holding the setup instructions. This is what \<open>handleWeatherAPI\<close> returns and
  what the dispatcher passes on; no failure of any kind is produced and the network is
  not used (the world is returned as it was).
\<close>

theorem weather_without_key_gives_setup_text:
  assumes "truthy (num_truthy rt) args" and "get_prop args ''city'' = JStr S"
    and "env_OPENWEATHER_API_KEY net s = None \<or> env_OPENWEATHER_API_KEY net s = Some []"
  shows "handleWeatherAPI rt net s args = (Inr (text_result weather_setup_text), s)
       \<and> callTool_mcp_server rt net s ''weather_api'' args = (Inr (text_result weather_setup_text), s)
       \<and> sublist ''requires OPENWEATHER_API_KEY environment variable'' weather_setup_text"
proof -
  have h: "handleWeatherAPI rt net s args = (Inr (text_result weather_setup_text), s)"
    using assms by (auto simp: handleWeatherAPI_def)
  have "sublist ''requires OPENWEATHER_API_KEY environment variable'' weather_setup_text"
    by (simp add: weather_setup_text_def sublist_code)
  with h assms(1) show ?thesis
    by (simp add: callTool_mcp_server_def tool_switch_mcp_server_def try_catch_def)
qed

theorem weather_without_key_gives_setup_text_witness:
  "truthy (num_truthy mem_runtime) (JObj [(''city'', JStr ''Paris'')])
   \<and> get_prop (JObj [(''city'', JStr ''Paris'')] :: int jsval) ''city'' = JStr ''Paris''
   \<and> env_OPENWEATHER_API_KEY offline world0 = None
   \<and> callTool_mcp_server mem_runtime offline world0 ''weather_api'' (JObj [(''city'', JStr ''Paris'')])
     = (Inr (text_result weather_setup_text), world0)"
proof -
  have a: "truthy (num_truthy mem_runtime) (JObj [(''city'', JStr ''Paris'')])" by simp
  have b: "get_prop (JObj [(''city'', JStr ''Paris'')] :: int jsval) ''city'' = JStr ''Paris''"
    by simp
  have c: "env_OPENWEATHER_API_KEY offline world0 = None"
    by (simp add: offline_def world0_def)
  then have c': "env_OPENWEATHER_API_KEY offline world0 = None
                   \<or> env_OPENWEATHER_API_KEY offline world0 = Some []" by simp
  from weather_without_key_gives_setup_text [OF a b c'] a b c show ?thesis by simp
qed

section \<open>Sums and products\<close>

text \<open>
  C8. For numbers \<open>a\<close> and \<open>b\<close> supplied as the fields \<open>a\<close> and \<open>b\<close> of the arguments,
  \<open>add_numbers\<close> returns the single text block
  "a + b = s" where \<open>s\<close> is what the runtime's addition gives for \<open>a\<close> and \<open>b\<close>, and
  \<open>multiply_numbers\<close> returns "a * b = p" where \<open>p\<close> is what the runtime's
  multiplication gives, each number printed as the runtime prints it; the world is
  untouched. On the integers, \<open>add_numbers(2, 3)\<close> yields "2 + 3 = 5" and
  \<open>multiply_numbers(2, 3)\<close> yields "2 * 3 = 6".
\<close>

theorem add_and_multiply_report_machine_result:
  "(truthy (num_truthy rt) args \<and> get_prop args ''a'' = JNum a \<and> get_prop args ''b'' = JNum b
      \<longrightarrow> callTool rt s ''add_numbers'' args
            = (Inr (text_result (num_show rt a @ '' + '' @ num_show rt b @ '' = ''
                                 @ num_show rt (num_add rt a b))), s)
        \<and> callTool rt s ''multiply_numbers'' args
            = (Inr (text_result (num_show rt a @ '' * '' @ num_show rt b @ '' = ''
                                 @ num_show rt (num_mul rt a b))), s))
   \<and> callTool mem_runtime w ''add_numbers'' (JObj [(''a'', JNum 2), (''b'', JNum 3)])
       = (Inr (text_result ''2 + 3 = 5''), w)
   \<and> callTool mem_runtime w ''multiply_numbers'' (JObj [(''a'', JNum 2), (''b'', JNum 3)])
       = (Inr (text_result ''2 * 3 = 6''), w)"
  by (simp add: callTool_def tool_switch_def try_catch_def mem_runtime_def int_show_def
                digits.simps)

theorem add_and_multiply_report_machine_result_witness:
  "truthy (num_truthy mem_runtime) sum_request
   \<and> get_prop sum_request ''a'' = JNum 12 \<and> get_prop sum_request ''b'' = JNum (- 5)
   \<and> callTool mem_runtime world0 ''add_numbers'' sum_request
       = (Inr (text_result ''12 + -5 = 7''), world0)
   \<and> callTool mem_runtime world0 ''multiply_numbers'' sum_request
       = (Inr (text_result ''12 * -5 = -60''), world0)"
proof -
  have h: "truthy (num_truthy mem_runtime) sum_request"
    "get_prop sum_request ''a'' = JNum 12" "get_prop sum_request ''b'' = JNum (- 5)"
    by (simp_all add: sum_request_def)
  have shown: "num_show mem_runtime 12 = ''12''" "num_show mem_runtime (- 5) = ''-5''"
    "num_show mem_runtime (num_add mem_runtime 12 (- 5)) = ''7''"
    "num_show mem_runtime (num_mul mem_runtime 12 (- 5)) = ''-60''"
    by (simp_all add: mem_runtime_def int_show_def digits.simps)
  note inst = add_and_multiply_report_machine_result
    [where rt = mem_runtime and args = sum_request and a = 12 and b = "- 5" and s = world0]
  from inst h shown show ?thesis by simp
qed

section \<open>The shape of a success\<close>

text \<open>
  C10. Every success that \<open>callTool\<close> returns, for whatever tool and arguments and
  through whichever branch of the file handler, has exactly one content block, and the
  kind of that block is "text".
\<close>

theorem success_is_one_text_block:
  assumes "callTool rt s name args = (Inr r, s')"
  shows "\<exists>t. content r = [\<lparr>block_type = ''text'', block_text = t\<rparr>]"
proof -
  from assms have "tool_switch rt s name args = (Inr r, s')"
    by (auto simp: callTool_def try_catch_result split: if_splits)
  then obtain t where "r = text_result t" by (auto dest: tool_switch_result)
  then show ?thesis by (simp add: text_result_def)
qed

theorem success_is_one_text_block_witness:
  "callTool mem_runtime world0 ''echo'' (JObj [(''text'', JStr ''hi'')])
     = (Inr (text_result ''Echo: hi''), world0)
   \<and> (\<exists>t. content (text_result ''Echo: hi'') = [\<lparr>block_type = ''text'', block_text = t\<rparr>])"
proof -
  have run: "callTool mem_runtime world0 ''echo'' (JObj [(''text'', JStr ''hi'')])
               = (Inr (text_result ''Echo: hi''), world0)"
    by (simp add: callTool_def tool_switch_def try_catch_def)
  from success_is_one_text_block [OF run] run show ?thesis by simp
qed

end
